theory Spec2Isabelle
  imports Main "HOL-Library.Sublist" "HOL-Library.AList"
begin

section \<open>JavaScript values used by both utilities\<close>

text \<open>
  Strings are lists of code units. The model covers the code units below 256, which is
  what \<^typ>\<open>char\<close> holds; every literal of the source is ASCII.
  A thrown value is an \<open>error\<close>; a computation that may throw returns
  \<open>error + 'a\<close> with \<open>Inl\<close> for the throw.
\<close>

datatype error =
    Error string
  | TypeError string

text \<open>The single quote, which cannot end a string literal, and the line feed.\<close>

definition sq :: string where
  "sq = [CHR 0x27]"

definition nl :: string where
  "nl = [CHR 0x0A]"

text \<open>
  The class \<open>\s\<close> of a JavaScript regular expression, restricted to the code units of
  the model: tab, line feed, vertical tab, form feed, carriage return, space and the
  no-break space.
\<close>

definition is_js_whitespace :: "char \<Rightarrow> bool" where
  "is_js_whitespace c =
     (c = CHR 0x09 \<or> c = CHR 0x0A \<or> c = CHR 0x0B \<or> c = CHR 0x0C \<or> c = CHR 0x0D
      \<or> c = CHR 0x20 \<or> c = CHR 0xA0)"

text \<open>\<open>s.replace(/\s+/g, '')\<close>: every maximal run of whitespace is deleted.\<close>

definition strip_whitespace :: "string \<Rightarrow> string" where
  "strip_whitespace s = filter (\<lambda>c. \<not> is_js_whitespace c) s"

text \<open>\<open>s.endsWith(t)\<close>, \<open>s.includes(t)\<close> and \<open>s.indexOf(t)\<close> (\<open>-1\<close> when absent).\<close>

definition js_endsWith :: "string \<Rightarrow> string \<Rightarrow> bool" where
  "js_endsWith s t = prefix (rev t) (rev s)"

fun js_indexOf :: "string \<Rightarrow> string \<Rightarrow> int" where
  "js_indexOf [] t = (if t = [] then 0 else -1)"
| "js_indexOf (x # xs) t =
     (if prefix t (x # xs) then 0
      else (let i = js_indexOf xs t in if i < 0 then -1 else i + 1))"

definition js_includes :: "string \<Rightarrow> string \<Rightarrow> bool" where
  "js_includes s t = (0 \<le> js_indexOf s t)"

text \<open>
  \<open>s.slice(a, b)\<close> and \<open>s.slice(a)\<close>: a negative index counts from the end, and both
  ends are clamped to the string.
\<close>

definition js_clamp_index :: "string \<Rightarrow> int \<Rightarrow> nat" where
  "js_clamp_index s i =
     (let n = int (length s)
      in if i < 0 then nat (max (n + i) 0) else nat (min i n))"

definition js_slice :: "string \<Rightarrow> int \<Rightarrow> int \<Rightarrow> string" where
  "js_slice s a b =
     (let from = js_clamp_index s a; to = js_clamp_index s b
      in take (to - from) (drop from s))"

definition js_slice_from :: "string \<Rightarrow> int \<Rightarrow> string" where
  "js_slice_from s a = drop (js_clamp_index s a) s"

text \<open>\<open>s.replace(t, r)\<close> with a string pattern: the first occurrence only.\<close>

definition js_replace :: "string \<Rightarrow> string \<Rightarrow> string \<Rightarrow> string" where
  "js_replace s t r =
     (let i = js_indexOf s t
      in if i < 0 then s else take (nat i) s @ r @ drop (nat i + length t) s)"

text \<open>What a template literal prints for a boolean, a number and a possibly undefined string.\<close>

definition string_of_bool :: "bool \<Rightarrow> string" where
  "string_of_bool b = (if b then ''true'' else ''false'')"

fun string_of_nat :: "nat \<Rightarrow> string" where
  "string_of_nat n =
     (if n < 10 then [''0123456789'' ! n]
      else string_of_nat (n div 10) @ [''0123456789'' ! (n mod 10)])"

definition string_of_undefinable :: "string option \<Rightarrow> string" where
  "string_of_undefinable v = (case v of None \<Rightarrow> ''undefined'' | Some s \<Rightarrow> s)"

text \<open>A string is falsy when it is undefined or empty.\<close>

definition truthy :: "string option \<Rightarrow> bool" where
  "truthy v = (case v of None \<Rightarrow> False | Some s \<Rightarrow> s \<noteq> [])"

text \<open>
  JSON values. An object is the list of its entries in insertion order, with
  \<open>AList.update\<close> for a property assignment: an existing key keeps its place and takes
  the new value, a new key goes to the end. (JavaScript lists the keys that are array
  indices before the others; the order of the entries is left to the printer of the
  object, and no property below depends on it.)
\<close>

datatype json =
    JNull
  | JBool bool
  | JNum int
  | JStr string
  | JArr "json list"
  | JObj "(string \<times> json) list"

text \<open>The own enumerable properties that an object spread \<open>{...v}\<close> copies.\<close>

definition own_entries :: "json \<Rightarrow> (string \<times> json) list" where
  "own_entries v =
     (case v of
        JObj kvs \<Rightarrow> kvs
      | JArr xs \<Rightarrow> map (\<lambda>i. (string_of_nat i, xs ! i)) [0..<length xs]
      | JStr s \<Rightarrow> map (\<lambda>i. (string_of_nat i, JStr [s ! i])) [0..<length s]
      | _ \<Rightarrow> [])"

definition assign_entries :: "(string \<times> json) list \<Rightarrow> (string \<times> json) list \<Rightarrow> (string \<times> json) list" where
  "assign_entries kvs new = fold (\<lambda>(k, v) acc. AList.update k v acc) new kvs"

section \<open>The remote registrar\<close>

subsection \<open>\<open>checkIsCommaNeeded\<close>\<close>

definition checkIsCommaNeeded :: "string \<Rightarrow> bool" where
  "checkIsCommaNeeded mfRemoteText =
     (let remoteText = strip_whitespace mfRemoteText
      in if \<not> js_endsWith remoteText '',]''
         then (if remoteText = ''[]'' then False else True)
         else False)"

subsection \<open>Generator options, project configuration and the file tree\<close>

text \<open>
  Modelled from the spec: the generator options of \<open>../schema\<close> (role, application
  name, optional host project name, port number, standalone-routing flag).
\<close>

datatype mf_type = Host | Remote

record schema =
  mfType :: mf_type
  appName :: string
  host :: "string option"
  port :: nat
  standalone :: bool

text \<open>
  Modelled from the spec: the devkit's project descriptor (name, root path, source root,
  target map). Only \<open>root\<close> is a required property.
\<close>

record project_configuration =
  name :: "string option"
  root :: string
  sourceRoot :: "string option"
  targets :: "(string \<rightharpoonup> json) option"

text \<open>
  Modelled from the spec: the devkit's \<open>Tree\<close>, a virtual file system holding the text
  of every file under its path. \<open>read\<close> answers \<open>null\<close> for a path that does not
  exist, which is why the source guards a read with \<open>exists\<close>.
\<close>

type_synonym tree = "string \<rightharpoonup> string"

definition tree_exists :: "tree \<Rightarrow> string \<Rightarrow> bool" where
  "tree_exists t p = (t p \<noteq> None)"

definition tree_read :: "tree \<Rightarrow> string \<Rightarrow> string option" where
  "tree_read t p = t p"

definition tree_write :: "tree \<Rightarrow> string \<Rightarrow> string \<Rightarrow> tree" where
  "tree_write t p s = t(p \<mapsto> s)"

definition string_of_nullable :: "string option \<Rightarrow> string" where
  "string_of_nullable v = (case v of None \<Rightarrow> ''null'' | Some s \<Rightarrow> s)"

text \<open>
  The node that the query \<open>Identifier[name=remotes] ~ ArrayLiteralExpression\<close> finds:
  the position just after it and its text.
\<close>

record array_literal =
  getEnd :: int
  getText :: string

text \<open>
  The collaborators of the registrar are parameters of the model. Each one that edits a
  file is given the path and the text of the file and answers the new text, which the
  model writes back under the same path; each may throw.
  \<^item> \<open>readProjectConfiguration tree name\<close> reads a project's configuration;
  \<^item> \<open>joinPathFragments a b\<close> joins and normalises two path fragments;
  \<^item> \<open>parseJson\<close> and \<open>serializeJson\<close> are the two halves of \<open>updateJson\<close>;
  \<^item> \<open>remotesArrayLiteral text\<close> is \<open>tsquery.ast\<close> followed by the query for the
    array of remotes, with \<open>None\<close> when the query finds nothing;
  \<^item> \<open>insertImport path text symbol module\<close>, \<open>addRoute path text route\<close> and
    \<open>addStandaloneRoute path text route\<close> patch the routing file;
  \<^item> \<open>className s\<close> is \<open>names(s).className\<close>.
\<close>

record generator_devkit =
  readProjectConfiguration :: "tree \<Rightarrow> string option \<Rightarrow> error + project_configuration"
  joinPathFragments :: "string option \<Rightarrow> string \<Rightarrow> error + string"
  parseJson :: "string \<Rightarrow> error + json"
  serializeJson :: "json \<Rightarrow> string"
  remotesArrayLiteral :: "string \<Rightarrow> error + array_literal option"
  insertImport :: "string \<Rightarrow> string \<Rightarrow> string \<Rightarrow> string \<Rightarrow> error + string"
  addRoute :: "string \<Rightarrow> string \<Rightarrow> string \<Rightarrow> error + string"
  addStandaloneRoute :: "string \<Rightarrow> string \<Rightarrow> string \<Rightarrow> error + string"
  className :: "string \<Rightarrow> string"

text \<open>
  Modelled from the spec: the devkit's \<open>updateJson\<close>, which reads the JSON file under
  the path, applies the updater and writes the result back.
\<close>

definition updateJson :: "generator_devkit \<Rightarrow> tree \<Rightarrow> string \<Rightarrow> (json \<Rightarrow> json) \<Rightarrow> (error + unit) \<times> tree" where
  "updateJson dk tree path updater =
     (case tree_read tree path of
        None \<Rightarrow> (Inl (Error (''Cannot find '' @ path)), tree)
      | Some text \<Rightarrow>
          (case parseJson dk text of
             Inl e \<Rightarrow> (Inl e, tree)
           | Inr v \<Rightarrow> (Inr (), tree_write tree path (serializeJson dk (updater v)))))"

subsection \<open>Registering the remote in the host's federation configuration\<close>

datatype federation_type = Dynamic | Static

definition determineHostFederationType :: "tree \<Rightarrow> string \<Rightarrow> federation_type" where
  "determineHostFederationType tree pathToMfManifest =
     (if tree_exists tree pathToMfManifest then Dynamic else Static)"

definition missing_host_config_message :: "schema \<Rightarrow> string" where
  "missing_host_config_message options =
     ''The selected host application, '' @ string_of_undefinable (host options)
     @ '', does not contain a module-federation.config.js or module-federation.manifest.json file. Are you sure it has been set up as a host application?''"

definition addRemoteToStaticHost :: "generator_devkit \<Rightarrow> tree \<Rightarrow> schema \<Rightarrow> project_configuration \<Rightarrow> (error + unit) \<times> tree" where
  "addRemoteToStaticHost dk tree options hostProject =
     (case joinPathFragments dk (Some (root hostProject)) ''module-federation.config.js'' of
        Inl e \<Rightarrow> (Inl e, tree)
      | Inr hostMFConfigPath \<Rightarrow>
          if hostMFConfigPath = [] \<or> \<not> tree_exists tree hostMFConfigPath
          then (Inl (Error (missing_host_config_message options)), tree)
          else
            (case tree_read tree hostMFConfigPath of
               None \<Rightarrow> (Inl (TypeError ''Cannot read properties of null''), tree)
             | Some hostMFConfig \<Rightarrow>
                 (case remotesArrayLiteral dk hostMFConfig of
                    Inl e \<Rightarrow> (Inl e, tree)
                  | Inr None \<Rightarrow>
                      (Inl (TypeError ''Cannot read properties of undefined (reading getEnd)''), tree)
                  | Inr (Some mfRemotesNode) \<Rightarrow>
                      (let endOfPropertiesPos = getEnd mfRemotesNode - 1;
                           isCommaNeeded = checkIsCommaNeeded (getText mfRemotesNode);
                           updatedConfig =
                             js_slice hostMFConfig 0 endOfPropertiesPos
                             @ (if isCommaNeeded then '','' else [])
                             @ sq @ appName options @ sq @ '',''
                             @ js_slice_from hostMFConfig endOfPropertiesPos
                       in (Inr (), tree_write tree hostMFConfigPath updatedConfig)))))"

definition remote_url :: "schema \<Rightarrow> string" where
  "remote_url options = ''http://localhost:'' @ string_of_nat (port options)"

text \<open>The updater that the source passes to \<open>updateJson\<close>: \<open>{...manifest, [appName]: url}\<close>.\<close>

definition manifest_updater :: "schema \<Rightarrow> json \<Rightarrow> json" where
  "manifest_updater options manifest =
     JObj (assign_entries (own_entries manifest) [(appName options, JStr (remote_url options))])"

definition addRemoteToDynamicHost :: "generator_devkit \<Rightarrow> tree \<Rightarrow> schema \<Rightarrow> string \<Rightarrow> (error + unit) \<times> tree" where
  "addRemoteToDynamicHost dk tree options pathToMfManifest =
     updateJson dk tree pathToMfManifest (manifest_updater options)"

subsection \<open>Patching the host's routing entry point and menu\<close>

definition route_to_add :: "schema \<Rightarrow> federation_type \<Rightarrow> string" where
  "route_to_add options hostFederationType =
     (let routePathName = (if standalone options then ''Routes'' else ''Module'')
      in if hostFederationType = Dynamic
         then ''loadRemoteModule('' @ sq @ appName options @ sq @ '', '' @ sq @ ''./''
              @ routePathName @ sq @ '')''
         else ''import('' @ sq @ appName options @ ''/'' @ routePathName @ sq @ '')'')"

definition module_route :: "schema \<Rightarrow> federation_type \<Rightarrow> string" where
  "module_route options hostFederationType =
     ''{'' @ nl
     @ ''         path: '' @ sq @ appName options @ sq @ '', '' @ nl
     @ ''         loadChildren: () => '' @ route_to_add options hostFederationType
     @ ''.then(m => m.RemoteEntryModule)'' @ nl
     @ ''     }''"

definition standalone_route :: "schema \<Rightarrow> federation_type \<Rightarrow> string" where
  "standalone_route options hostFederationType =
     ''{'' @ nl
     @ ''    path: '' @ sq @ appName options @ sq @ '','' @ nl
     @ ''    loadChildren: () => '' @ route_to_add options hostFederationType
     @ ''.then(m => m.RemoteRoutes)'' @ nl
     @ ''    }''"

text \<open>Lines 385 to 427 of the source: the import and the route, written to the routing file.\<close>

definition patch_routing_file :: "generator_devkit \<Rightarrow> tree \<Rightarrow> schema \<Rightarrow> federation_type \<Rightarrow> string \<Rightarrow> string \<Rightarrow> (error + unit) \<times> tree" where
  "patch_routing_file dk tree options hostFederationType pathToHostRootRouting hostRootRoutingFile =
     (case (if hostFederationType = Dynamic
            then insertImport dk pathToHostRootRouting hostRootRoutingFile
                   ''loadRemoteModule'' ''@nrwl/angular/mf''
            else Inr hostRootRoutingFile) of
        Inl e \<Rightarrow> (Inl e, tree)
      | Inr sourceFile \<Rightarrow>
          (let tree1 = (if hostFederationType = Dynamic
                        then tree_write tree pathToHostRootRouting sourceFile else tree)
           in case (if js_includes hostRootRoutingFile ''@NgModule''
                    then addRoute dk pathToHostRootRouting sourceFile
                           (module_route options hostFederationType)
                    else addStandaloneRoute dk pathToHostRootRouting sourceFile
                           (standalone_route options hostFederationType)) of
                Inl e \<Rightarrow> (Inl e, tree1)
              | Inr routed \<Rightarrow> (Inr (), tree_write tree1 pathToHostRootRouting routed)))"

definition remote_menu_open :: string where
  \<open>remote_menu_open = ''<ul class="remote-menu">''\<close>

definition menu_entry :: "generator_devkit \<Rightarrow> schema \<Rightarrow> string" where
  "menu_entry dk options =
     ''<li><a routerLink='' @ sq @ appName options @ sq @ ''>''
     @ className dk (appName options) @ ''</a></li>'' @ nl"

text \<open>Lines 429 to 446 of the source: the link in the host's app template.\<close>

definition patch_app_component_template :: "generator_devkit \<Rightarrow> tree \<Rightarrow> schema \<Rightarrow> project_configuration \<Rightarrow> (error + unit) \<times> tree" where
  "patch_app_component_template dk tree options hostAppConfig =
     (case joinPathFragments dk (sourceRoot hostAppConfig) ''app/app.component.html'' of
        Inl e \<Rightarrow> (Inl e, tree)
      | Inr pathToAppComponentTemplate \<Rightarrow>
          (case tree_read tree pathToAppComponentTemplate of
             None \<Rightarrow> (Inl (TypeError ''Cannot read properties of null (reading includes)''), tree)
           | Some appComponent \<Rightarrow>
               if js_includes appComponent remote_menu_open \<and> js_includes appComponent ''</ul>''
               then
                 (let indexOfClosingMenuTag = js_indexOf appComponent ''</ul>'';
                      newAppComponent =
                        js_slice appComponent 0 indexOfClosingMenuTag
                        @ menu_entry dk options
                        @ js_slice_from appComponent indexOfClosingMenuTag
                  in (Inr (), tree_write tree pathToAppComponentTemplate newAppComponent))
               else (Inr (), tree)))"

definition host_root_routing_path :: "project_configuration \<Rightarrow> bool \<Rightarrow> string" where
  "host_root_routing_path hostAppConfig isHostStandalone =
     (if isHostStandalone
      then string_of_undefinable (sourceRoot hostAppConfig) @ ''/bootstrap.ts''
      else string_of_undefinable (sourceRoot hostAppConfig) @ ''/app/app.module.ts'')"

definition addLazyLoadedRouteToHostAppModule :: "generator_devkit \<Rightarrow> tree \<Rightarrow> schema \<Rightarrow> federation_type \<Rightarrow> (error + unit) \<times> tree" where
  "addLazyLoadedRouteToHostAppModule dk tree options hostFederationType =
     (case readProjectConfiguration dk tree (host options) of
        Inl e \<Rightarrow> (Inl e, tree)
      | Inr hostAppConfig \<Rightarrow>
          (case joinPathFragments dk (sourceRoot hostAppConfig) ''bootstrap.ts'' of
             Inl e \<Rightarrow> (Inl e, tree)
           | Inr pathToBootstrap \<Rightarrow>
               (case tree_read tree pathToBootstrap of
                  None \<Rightarrow> (Inl (TypeError ''Cannot read properties of null (reading includes)''), tree)
                | Some bootstrap \<Rightarrow>
                    (let isHostStandalone = \<not> js_includes bootstrap ''bootstrapModule'';
                         pathToHostRootRouting = host_root_routing_path hostAppConfig isHostStandalone
                     in if \<not> tree_exists tree pathToHostRootRouting then (Inr (), tree)
                        else
                          (case tree_read tree pathToHostRootRouting of
                             None \<Rightarrow> (Inl (TypeError ''Cannot read properties of null (reading includes)''), tree)
                           | Some hostRootRoutingFile \<Rightarrow>
                               if \<not> js_includes hostRootRoutingFile ''RouterModule.forRoot(''
                               then (Inr (), tree)
                               else
                                 (case patch_routing_file dk tree options hostFederationType
                                         pathToHostRootRouting hostRootRoutingFile of
                                    (Inl e, tree1) \<Rightarrow> (Inl e, tree1)
                                  | (Inr u, tree1) \<Rightarrow>
                                      patch_app_component_template dk tree1 options hostAppConfig))))))"

subsection \<open>\<open>addRemoteToHost\<close>\<close>

definition declaration_line :: "schema \<Rightarrow> string" where
  "declaration_line options =
     nl @ ''declare module '' @ sq @ appName options @ ''/''
     @ (if standalone options then ''Routes'' else ''Module'') @ sq @ '';''"

definition addRemoteToHost :: "generator_devkit \<Rightarrow> tree \<Rightarrow> schema \<Rightarrow> (error + unit) \<times> tree" where
  "addRemoteToHost dk tree options =
     (if mfType options = Remote \<and> truthy (host options) then
        (case readProjectConfiguration dk tree (host options) of
           Inl e \<Rightarrow> (Inl e, tree)
         | Inr hostProject \<Rightarrow>
             (case joinPathFragments dk (sourceRoot hostProject)
                     ''assets/module-federation.manifest.json'' of
                Inl e \<Rightarrow> (Inl e, tree)
              | Inr pathToMFManifest \<Rightarrow>
                  (let hostFederationType = determineHostFederationType tree pathToMFManifest
                   in case (case hostFederationType of
                              Static \<Rightarrow> addRemoteToStaticHost dk tree options hostProject
                            | Dynamic \<Rightarrow> addRemoteToDynamicHost dk tree options pathToMFManifest) of
                        (Inl e, tree1) \<Rightarrow> (Inl e, tree1)
                      | (Inr u, tree1) \<Rightarrow>
                          (case joinPathFragments dk (sourceRoot hostProject) ''remotes.d.ts'' of
                             Inl e \<Rightarrow> (Inl e, tree1)
                           | Inr declarationFilePath \<Rightarrow>
                               (let declarationFileContent =
                                      (if tree_exists tree1 declarationFilePath
                                       then string_of_nullable (tree_read tree1 declarationFilePath)
                                       else [])
                                      @ declaration_line options;
                                    tree2 = tree_write tree1 declarationFilePath declarationFileContent
                                in addLazyLoadedRouteToHostAppModule dk tree2 options
                                     hostFederationType)))))
      else (Inr (), tree))"

section \<open>The preset resolver\<close>

subsection \<open>Project graph, targets and executor options\<close>

text \<open>
  Modelled from the spec: the devkit's project graph (nodes keyed by project name, each
  with the project's configuration as its data, which may be missing), a target
  reference (project, target, configuration) and the executor context.
\<close>

record project_graph_node =
  data :: "project_configuration option"

record project_graph =
  nodes :: "string \<rightharpoonup> project_graph_node"

record target =
  project :: string
  target :: string
  configuration :: "string option"

text \<open>
  The fields \<open>target\<close> and \<open>root\<close> of the executor context are \<open>ctx_target\<close> and
  \<open>ctx_root\<close> here.
\<close>

record executor_context =
  cwd :: string
  projectGraph :: project_graph
  ctx_target :: "json option"
  targetName :: string
  configurationName :: "string option"
  ctx_root :: string
  isVerbose :: bool
  projectName :: string
  workspace :: json

record react_component_testing_options =
  ctTargetName :: string

record cypress_executor_options =
  devServerTarget :: "string option"

datatype optimization =
    OptimizationFlag bool
  | OptimizationObject (scripts_flag: "bool option") (styles_flag: "bool option")

record web_webpack_executor_options =
  compiler :: "string option"
  deleteOutputPath :: "bool option"
  vendorChunk :: "bool option"
  commonChunk :: "bool option"
  runtimeChunk :: "bool option"
  sourceMap :: "bool option"
  assets :: "json list option"
  scripts :: "json list option"
  styles :: "json list option"
  budgets :: "json list option"
  namedChunks :: "bool option"
  outputHashing :: "string option"
  extractCss :: "bool option"
  memoryLimit :: "nat option"
  maxWorkers :: "nat option"
  fileReplacements :: "json list option"
  buildLibsFromSource :: "bool option"
  generateIndexHtml :: "bool option"
  optimization :: "optimization option"

record 'w dev_server =
  framework :: string
  bundler :: string
  webpackConfig :: 'w

text \<open>
  The returned preset: the properties of the base preset, and \<open>devServer\<close>, which the
  object literal sets after the spread.
\<close>

record ('b, 'w) preset =
  base :: 'b
  devServer :: "'w dev_server"

datatype log_entry =
    WarnText string
  | WarnError error

text \<open>
  The collaborators of the resolver are parameters of the model: the environment
  (\<open>workspaceRoot\<close>, \<open>process.cwd()\<close>, the variable \<open>NX_CYPRESS_TARGET_CONFIGURATION\<close>),
  the graph and file-system readers, the two instances of \<open>readTargetOptions\<close>, the path
  functions of Node, and the builders of the webpack configuration. Every collaborator
  that reads the workspace or builds a configuration may throw, whether the source calls
  it inside its \<open>try\<close> block or, as \<open>buildBaseWebpackConfig\<close> (in the \<open>catch\<close>
  block) and \<open>nxBaseCypressPreset\<close> (in the \<open>return\<close> statement), outside it.
\<close>

record ('b, 'w) cypress_devkit =
  workspaceRoot :: string
  process_cwd :: string
  NX_CYPRESS_TARGET_CONFIGURATION :: "string option"
  readCachedProjectGraph :: "error + project_graph"
  relative :: "string \<Rightarrow> string \<Rightarrow> string"
  extname :: "string \<Rightarrow> string"
  lstat_isFile :: "string \<Rightarrow> error + bool"
  mapProjectGraphFiles :: "project_graph \<Rightarrow> error + (string \<rightharpoonup> string)"
  readProjectsConfigurationFromProjectGraph :: "project_graph \<Rightarrow> error + json"
  readNxJson :: "error + json"
  readCypressTargetOptions :: "target \<Rightarrow> executor_context \<Rightarrow> error + cypress_executor_options"
  readWebpackTargetOptions :: "target \<Rightarrow> executor_context \<Rightarrow> error + web_webpack_executor_options"
  parseTargetString :: "string \<Rightarrow> error + target"
  normalizeWebBuildOptions :: "web_webpack_executor_options \<Rightarrow> string \<Rightarrow> string option \<Rightarrow> error + web_webpack_executor_options"
  getWebConfig :: "string \<Rightarrow> string \<Rightarrow> string option \<Rightarrow> web_webpack_executor_options \<Rightarrow> bool \<Rightarrow> bool \<Rightarrow> string option \<Rightarrow> error + 'w"
  stripIndents :: "string \<Rightarrow> string"
  buildBaseWebpackConfig :: "string \<Rightarrow> string \<Rightarrow> error + 'w"
  nxBaseCypressPreset :: "string \<Rightarrow> error + 'b"

subsection \<open>The functions of the source\<close>

text \<open>\<open>graph.nodes[key]?.data\<close>.\<close>

definition node_data :: "project_graph \<Rightarrow> string \<Rightarrow> project_configuration option" where
  "node_data graph key = (case nodes graph key of None \<Rightarrow> None | Some n \<Rightarrow> data n)"

definition or_default :: "'a option \<Rightarrow> 'a \<Rightarrow> 'a option" where
  "or_default v d = (case v of None \<Rightarrow> Some d | Some x \<Rightarrow> Some x)"

definition withSchemaDefaults :: "('b, 'w) cypress_devkit \<Rightarrow> target \<Rightarrow> executor_context \<Rightarrow> error + web_webpack_executor_options" where
  "withSchemaDefaults dk tgt context =
     (case readWebpackTargetOptions dk tgt context of
        Inl e \<Rightarrow> Inl e
      | Inr options \<Rightarrow>
          Inr (options
            \<lparr> compiler := or_default (compiler options) ''babel'',
              deleteOutputPath := or_default (deleteOutputPath options) True,
              vendorChunk := or_default (vendorChunk options) True,
              commonChunk := or_default (commonChunk options) True,
              runtimeChunk := or_default (runtimeChunk options) True,
              sourceMap := or_default (sourceMap options) True,
              assets := or_default (assets options) [],
              scripts := or_default (scripts options) [],
              styles := or_default (styles options) [],
              budgets := or_default (budgets options) [],
              namedChunks := or_default (namedChunks options) True,
              outputHashing := or_default (outputHashing options) ''none'',
              extractCss := or_default (extractCss options) True,
              memoryLimit := or_default (memoryLimit options) 2048,
              maxWorkers := or_default (maxWorkers options) 2,
              fileReplacements := or_default (fileReplacements options) [],
              buildLibsFromSource := or_default (buildLibsFromSource options) True,
              generateIndexHtml := or_default (generateIndexHtml options) True \<rparr>))"

definition createExecutorContext :: "('b, 'w) cypress_devkit \<Rightarrow> project_graph \<Rightarrow> (string \<rightharpoonup> json) option \<Rightarrow> string \<Rightarrow> string \<Rightarrow> string option \<Rightarrow> error + executor_context" where
  "createExecutorContext dk graph tgts pName tName cName =
     (case readProjectsConfigurationFromProjectGraph dk graph of
        Inl e \<Rightarrow> Inl e
      | Inr projectConfigs \<Rightarrow>
          (case tgts of
             None \<Rightarrow> Inl (TypeError ''Cannot read properties of undefined'')
           | Some ts \<Rightarrow>
               (case readNxJson dk of
                  Inl e \<Rightarrow> Inl e
                | Inr nxJson \<Rightarrow>
                    Inr \<lparr> cwd = process_cwd dk,
                          projectGraph = graph,
                          ctx_target = ts tName,
                          targetName = tName,
                          configurationName = cName,
                          ctx_root = workspaceRoot dk,
                          isVerbose = False,
                          projectName = pName,
                          workspace =
                            JObj (assign_entries (own_entries nxJson) (own_entries projectConfigs)) \<rparr>)))"

definition missing_project_configs_message :: "('b, 'w) cypress_devkit \<Rightarrow> string \<Rightarrow> bool \<Rightarrow> bool \<Rightarrow> string" where
  "missing_project_configs_message dk buildTarget hasBuild hasCt =
     stripIndents dk
       (''Unable to load project configs from graph. '' @ nl
        @ ''    Using build target '' @ sq @ buildTarget @ sq @ nl
        @ ''    Has build config? '' @ string_of_bool hasBuild @ nl
        @ ''    Has component config? '' @ string_of_bool hasCt @ nl
        @ ''    '')"

definition isScriptOptimizeOn :: "web_webpack_executor_options \<Rightarrow> bool" where
  "isScriptOptimizeOn options =
     (case optimization options of
        Some (OptimizationFlag b) \<Rightarrow> b
      | Some (OptimizationObject s y) \<Rightarrow> (case s of Some True \<Rightarrow> True | _ \<Rightarrow> False)
      | None \<Rightarrow> False)"

definition buildTargetWebpack :: "('b, 'w) cypress_devkit \<Rightarrow> project_graph \<Rightarrow> string \<Rightarrow> string \<Rightarrow> error + 'w" where
  "buildTargetWebpack dk graph buildTarget componentTestingProjectName =
     (case parseTargetString dk buildTarget of
        Inl e \<Rightarrow> Inl e
      | Inr parsed \<Rightarrow>
          (case (node_data graph (project parsed), node_data graph componentTestingProjectName) of
             (Some buildableProjectConfig, Some ctProjectConfig) \<Rightarrow>
               (case createExecutorContext dk graph (targets buildableProjectConfig)
                       (project parsed) (target parsed) (Some (target parsed)) of
                  Inl e \<Rightarrow> Inl e
                | Inr context \<Rightarrow>
                    (case withSchemaDefaults dk parsed context of
                       Inl e \<Rightarrow> Inl e
                     | Inr defaulted \<Rightarrow>
                         (case normalizeWebBuildOptions dk defaulted (workspaceRoot dk)
                                 (sourceRoot buildableProjectConfig) of
                            Inl e \<Rightarrow> Inl e
                          | Inr options \<Rightarrow>
                              getWebConfig dk (workspaceRoot dk) (root ctProjectConfig)
                                (sourceRoot ctProjectConfig) options True
                                (isScriptOptimizeOn options) (configuration parsed))))
           | (b, c) \<Rightarrow>
               Inl (Error (missing_project_configs_message dk buildTarget (b \<noteq> None) (c \<noteq> None)))))"

definition missing_project_message :: "('b, 'w) cypress_devkit \<Rightarrow> project_graph \<Rightarrow> string \<Rightarrow> string option \<Rightarrow> string" where
  "missing_project_message dk graph normalizedPath found =
     stripIndents dk
       (''Unable to find the project configuration that includes '' @ normalizedPath @ ''. '' @ nl
        @ ''      Found project name? '' @ string_of_undefinable found @ ''. '' @ nl
        @ ''      Graph has data? ''
        @ string_of_bool (node_data graph (string_of_undefinable found) \<noteq> None))"

text \<open>
  \<open>getConfigByPath\<close> fills in a missing \<open>name\<close> on the graph it is given, so it
  answers the graph as well as the project's configuration.
\<close>

definition getConfigByPath :: "('b, 'w) cypress_devkit \<Rightarrow> project_graph \<Rightarrow> string \<Rightarrow> error + (project_graph \<times> project_configuration)" where
  "getConfigByPath dk graph configPath =
     (let configFileFromWorkspaceRoot = relative dk (workspaceRoot dk) configPath
      in case lstat_isFile dk configPath of
           Inl e \<Rightarrow> Inl e
         | Inr isFile \<Rightarrow>
             (let normalizedPathFromWorkspaceRoot =
                    (if isFile
                     then js_replace configFileFromWorkspaceRoot (extname dk configPath) []
                     else configFileFromWorkspaceRoot)
              in case mapProjectGraphFiles dk graph of
                   Inl e \<Rightarrow> Inl e
                 | Inr allFiles \<Rightarrow>
                     (let found = allFiles normalizedPathFromWorkspaceRoot
                      in case (if truthy found
                               then node_data graph (string_of_undefinable found) else None) of
                           None \<Rightarrow>
                             Inl (Error (missing_project_message dk graph
                                           normalizedPathFromWorkspaceRoot found))
                         | Some cfg \<Rightarrow>
                             (let componentTestingProjectName = string_of_undefinable found;
                                  named = cfg \<lparr> name := or_default (name cfg) componentTestingProjectName \<rparr>
                              in Inr (graph \<lparr> nodes := (nodes graph)
                                          (componentTestingProjectName \<mapsto> \<lparr> data = Some named \<rparr>) \<rparr>,
                                      named)))))"

definition missing_dev_server_target_message :: "string \<Rightarrow> string \<Rightarrow> string" where
  "missing_dev_server_target_message tName pName =
     ''Unable to find the '' @ sq @ ''devServerTarget'' @ sq @ '' executor option in the ''
     @ sq @ tName @ sq @ '' target of the '' @ sq @ pName @ sq @ '' project''"

definition component_test_target_name :: "react_component_testing_options option \<Rightarrow> string" where
  "component_test_target_name options =
     (case options of
        None \<Rightarrow> ''component-test''
      | Some opts \<Rightarrow> if ctTargetName opts \<noteq> [] then ctTargetName opts else ''component-test'')"

text \<open>The body of the \<open>try\<close> block of \<open>nxComponentTestingPreset\<close>.\<close>

definition webpack_config_from_graph :: "('b, 'w) cypress_devkit \<Rightarrow> string \<Rightarrow> react_component_testing_options option \<Rightarrow> error + 'w" where
  "webpack_config_from_graph dk pathToConfig options =
     (case readCachedProjectGraph dk of
        Inl e \<Rightarrow> Inl e
      | Inr graph0 \<Rightarrow>
          (case getConfigByPath dk graph0 pathToConfig of
             Inl e \<Rightarrow> Inl e
           | Inr (graph, ctConfig) \<Rightarrow>
               (let ctTargets = targets ctConfig;
                    ctProjectName = string_of_undefinable (name ctConfig);
                    tName = component_test_target_name options;
                    ctConfigurationName = NX_CYPRESS_TARGET_CONFIGURATION dk
                in case createExecutorContext dk graph ctTargets ctProjectName tName
                          ctConfigurationName of
                     Inl e \<Rightarrow> Inl e
                   | Inr ctExecutorContext \<Rightarrow>
                       (case readCypressTargetOptions dk
                               \<lparr> project = ctProjectName, target = tName,
                                 configuration = ctConfigurationName \<rparr>
                               ctExecutorContext of
                          Inl e \<Rightarrow> Inl e
                        | Inr ctExecutorOptions \<Rightarrow>
                            (case devServerTarget ctExecutorOptions of
                               None \<Rightarrow>
                                 Inl (Error (missing_dev_server_target_message tName ctProjectName))
                             | Some buildTarget \<Rightarrow>
                                 if buildTarget = []
                                 then Inl (Error (missing_dev_server_target_message tName ctProjectName))
                                 else buildTargetWebpack dk graph buildTarget ctProjectName)))))"

definition fallback_warning :: "('b, 'w) cypress_devkit \<Rightarrow> string" where
  "fallback_warning dk =
     stripIndents dk
       (''Unable to build a webpack config with the project graph. '' @ nl
        @ ''      Falling back to default webpack config.'')"

text \<open>
  The \<open>return\<close> statement of lines 104 to 113: the base preset is computed there,
  outside the \<open>try\<close> block, so an error of \<open>nxBaseCypressPreset\<close> reaches the caller.
\<close>

definition return_preset :: "('b, 'w) cypress_devkit \<Rightarrow> string \<Rightarrow> 'w \<Rightarrow> log_entry list \<Rightarrow> (error + ('b, 'w) preset) \<times> log_entry list" where
  "return_preset dk pathToConfig config logged =
     (case nxBaseCypressPreset dk pathToConfig of
        Inl thrown \<Rightarrow> (Inl thrown, logged)
      | Inr basePreset \<Rightarrow>
          (Inr \<lparr> base = basePreset,
                 devServer = \<lparr> framework = ''react'', bundler = ''webpack'',
                               webpackConfig = config \<rparr> \<rparr>,
           logged))"

text \<open>
  The \<open>catch\<close> block logs the two warnings and then calls \<open>buildBaseWebpackConfig\<close>;
  nothing catches an error of that call.
\<close>

definition nxComponentTestingPreset :: "('b, 'w) cypress_devkit \<Rightarrow> string \<Rightarrow> react_component_testing_options option \<Rightarrow> (error + ('b, 'w) preset) \<times> log_entry list" where
  "nxComponentTestingPreset dk pathToConfig options =
     (case webpack_config_from_graph dk pathToConfig options of
        Inr fromGraph \<Rightarrow> return_preset dk pathToConfig fromGraph []
      | Inl e \<Rightarrow>
          (let logged = [WarnText (fallback_warning dk), WarnError e]
           in case buildBaseWebpackConfig dk ''tsconfig.cy.json'' ''babel'' of
                Inl thrown \<Rightarrow> (Inl thrown, logged)
              | Inr fallback \<Rightarrow> return_preset dk pathToConfig fallback logged))"

section \<open>Example collaborators\<close>

text \<open>
  Concrete collaborators on which the model is evaluated: a workspace with one host
  project \<open>shell\<close>, paths joined with a slash, and a JSON reader and printer for the
  manifests of the examples.
\<close>

definition example_host_project :: project_configuration where
  "example_host_project =
     \<lparr> name = Some ''shell'', root = ''apps/shell'', sourceRoot = Some ''apps/shell/src'',
       targets = None \<rparr>"

definition example_join :: "string option \<Rightarrow> string \<Rightarrow> error + string" where
  "example_join a b =
     (case a of
        None \<Rightarrow> Inl (TypeError ''The path argument must be of type string'')
      | Some d \<Rightarrow> Inr (d @ ''/'' @ b))"

definition example_parse :: "string \<Rightarrow> error + json" where
  "example_parse text =
     (if text = ''{}'' then Inr (JObj [])
      else if text = ''{shop}'' then Inr (JObj [(''shop'', JStr ''http://localhost:4200'')])
      else if text = ''{cart,blog}''
      then Inr (JObj [(''cart'', JStr ''http://localhost:4202''),
                      (''blog'', JStr ''http://localhost:4203'')])
      else Inl (Error ''Unexpected token in JSON''))"

definition example_print :: "json \<Rightarrow> string" where
  "example_print v =
     (case v of
        JObj kvs \<Rightarrow>
          concat (map (\<lambda>(k, x). k @ ''='' @ (case x of JStr s \<Rightarrow> s | _ \<Rightarrow> ''?'') @ '';'') kvs)
      | _ \<Rightarrow> ''?'')"

definition example_devkit :: generator_devkit where
  "example_devkit =
     \<lparr> readProjectConfiguration =
         (\<lambda>tree h. if h = Some ''shell'' then Inr example_host_project
                    else Inl (Error ''Cannot find configuration for the project'')),
       joinPathFragments = example_join,
       parseJson = example_parse,
       serializeJson = example_print,
       remotesArrayLiteral = (\<lambda>text. Inr None),
       insertImport = (\<lambda>path text symbol m. Inr (''import '' @ symbol @ '';'' @ text)),
       addRoute = (\<lambda>path text route. Inr (text @ route)),
       addStandaloneRoute = (\<lambda>path text route. Inr (text @ route)),
       className = (\<lambda>s. s) \<rparr>"

definition example_options :: schema where
  "example_options =
     \<lparr> mfType = Remote, appName = ''shop'', host = Some ''shell'', port = 4201,
       standalone = False \<rparr>"

text \<open>The files of the host \<open>shell\<close> and three states of its tree.\<close>

definition example_manifest_path :: string where
  "example_manifest_path = ''apps/shell/src/assets/module-federation.manifest.json''"

definition example_bootstrap_path :: string where
  "example_bootstrap_path = ''apps/shell/src/bootstrap.ts''"

definition example_module_path :: string where
  "example_module_path = ''apps/shell/src/app/app.module.ts''"

definition example_template_path :: string where
  "example_template_path = ''apps/shell/src/app/app.component.html''"

definition example_declaration_path :: string where
  "example_declaration_path = ''apps/shell/src/remotes.d.ts''"

definition example_template :: string where
  "example_template = remote_menu_open @ ''</ul>''"

text \<open>A static host that has no \<open>module-federation.config.js\<close>.\<close>

definition example_static_tree :: tree where
  "example_static_tree = [example_declaration_path \<mapsto> ''declare module cart;'']"

text \<open>A dynamic host with a menu in its template and no \<open>app/app.module.ts\<close>.\<close>

definition example_dynamic_tree :: tree where
  "example_dynamic_tree =
     [example_manifest_path \<mapsto> ''{}'',
      example_bootstrap_path \<mapsto> ''bootstrapModule(AppModule)'',
      example_template_path \<mapsto> example_template]"

text \<open>The same host with a routing module that calls \<open>RouterModule.forRoot(\<close>.\<close>

definition example_routed_tree :: tree where
  "example_routed_tree =
     example_dynamic_tree(example_module_path \<mapsto> ''@NgModule RouterModule.forRoot('')"

text \<open>
  A workspace for the resolver: the component tests of project \<open>shop\<close> are served by
  the target \<open>web:build\<close>, and every collaborator returns.
\<close>

definition example_project :: "string \<Rightarrow> project_configuration" where
  "example_project dir =
     \<lparr> name = None, root = dir, sourceRoot = Some (dir @ ''/src''),
       targets = Some [''build'' \<mapsto> JObj [], ''component-test'' \<mapsto> JObj []] \<rparr>"

definition example_graph :: project_graph where
  "example_graph =
     \<lparr> nodes = [''shop'' \<mapsto> \<lparr> data = Some (example_project ''apps/shop'') \<rparr>,
                ''web'' \<mapsto> \<lparr> data = Some (example_project ''apps/web'') \<rparr>] \<rparr>"

text \<open>The same graph without the project that the build target names.\<close>

definition example_graph_without_build :: project_graph where
  "example_graph_without_build =
     \<lparr> nodes = [''shop'' \<mapsto> \<lparr> data = Some (example_project ''apps/shop'') \<rparr>] \<rparr>"

definition example_web_options :: web_webpack_executor_options where
  "example_web_options =
     \<lparr> compiler = None, deleteOutputPath = None, vendorChunk = None, commonChunk = None,
       runtimeChunk = None, sourceMap = None, assets = None, scripts = None, styles = None,
       budgets = None, namedChunks = None, outputHashing = None, extractCss = None,
       memoryLimit = None, maxWorkers = None, fileReplacements = None,
       buildLibsFromSource = None, generateIndexHtml = None, optimization = None \<rparr>"

definition example_config_path :: string where
  "example_config_path = ''/ws/apps/shop/cypress.config.ts''"

definition example_cypress_devkit :: "(string, string) cypress_devkit" where
  "example_cypress_devkit =
     \<lparr> workspaceRoot = ''/ws'',
       process_cwd = ''/ws'',
       NX_CYPRESS_TARGET_CONFIGURATION = None,
       readCachedProjectGraph = Inr example_graph,
       relative = (\<lambda>from to. drop (Suc (length from)) to),
       extname = (\<lambda>path. ''.ts''),
       lstat_isFile = (\<lambda>path. Inr True),
       mapProjectGraphFiles = (\<lambda>graph. Inr [''apps/shop/cypress.config'' \<mapsto> ''shop'']),
       readProjectsConfigurationFromProjectGraph = (\<lambda>graph. Inr (JObj [(''version'', JNum 2)])),
       readNxJson = Inr (JObj []),
       readCypressTargetOptions = (\<lambda>t context. Inr \<lparr> devServerTarget = Some ''web:build'' \<rparr>),
       readWebpackTargetOptions = (\<lambda>t context. Inr example_web_options),
       parseTargetString =
         (\<lambda>text. Inr \<lparr> project = takeWhile (\<lambda>c. c \<noteq> CHR '':'') text, target = ''build'',
                        configuration = None \<rparr>),
       normalizeWebBuildOptions = (\<lambda>options wsRoot srcRoot. Inr options),
       getWebConfig =
         (\<lambda>wsRoot projectRoot srcRoot options isDevServer optimize config.
            Inr (''webpack config of '' @ projectRoot)),
       stripIndents = (\<lambda>text. text),
       buildBaseWebpackConfig =
         (\<lambda>tsConfigPath comp. Inr (''base config '' @ tsConfigPath @ '' '' @ comp)),
       nxBaseCypressPreset = (\<lambda>path. Inr (''base preset of '' @ path)) \<rparr>"



section \<open>Properties\<close>

lemma js_endsWith_suffix: "js_endsWith s t = suffix t s"
  by (simp add: js_endsWith_def suffix_to_prefix)

text \<open>
  C5. \<open>checkIsCommaNeeded\<close> answers \<open>false\<close> on \<open>[]\<close>, \<open>true\<close> on \<open>[ 'a' ]\<close> and
  \<open>false\<close> on \<open>['a',]\<close>. For every text, with all whitespace removed: a text ending in
  \<open>,]\<close> needs no comma, the text \<open>[]\<close> needs no comma, and every other text needs one.
\<close>

theorem checkIsCommaNeeded_cases:
  "checkIsCommaNeeded ''[]'' = False
   \<and> checkIsCommaNeeded ''[ 'a' ]'' = True
   \<and> checkIsCommaNeeded ''['a',]'' = False
   \<and> (suffix '',]'' (strip_whitespace t) \<longrightarrow> checkIsCommaNeeded t = False)
   \<and> (strip_whitespace t = ''[]'' \<longrightarrow> checkIsCommaNeeded t = False)
   \<and> (\<not> suffix '',]'' (strip_whitespace t) \<and> strip_whitespace t \<noteq> ''[]''
        \<longrightarrow> checkIsCommaNeeded t = True)"
  by (simp add: checkIsCommaNeeded_def js_endsWith_def strip_whitespace_def
      is_js_whitespace_def suffix_to_prefix)

theorem checkIsCommaNeeded_cases_witness:
  "checkIsCommaNeeded ''[ 'a', 'b' ,  ]'' = False
   \<and> checkIsCommaNeeded ('' [ ]'' @ nl) = False
   \<and> checkIsCommaNeeded ''['a', 'b']'' = True"
proof -
  have a: "suffix '',]'' (strip_whitespace ''[ 'a', 'b' ,  ]'')"
    by (simp add: strip_whitespace_def is_js_whitespace_def suffix_to_prefix)
  have b: "strip_whitespace ('' [ ]'' @ nl) = ''[]''"
    by (simp add: strip_whitespace_def is_js_whitespace_def nl_def)
  have c: "\<not> suffix '',]'' (strip_whitespace ''['a', 'b']'')
           \<and> strip_whitespace ''['a', 'b']'' \<noteq> ''[]''"
    by (simp add: strip_whitespace_def is_js_whitespace_def suffix_to_prefix)
  show ?thesis
    using a b c
      checkIsCommaNeeded_cases [of "''[ 'a', 'b' ,  ]''"]
      checkIsCommaNeeded_cases [of "'' [ ]'' @ nl"]
      checkIsCommaNeeded_cases [of "''['a', 'b']''"]
    by blast
qed

subsection \<open>\<open>addRemoteToHost\<close> and the federation configuration\<close>

lemma manifest_updater_object:
  "manifest_updater options (JObj manifest) =
     JObj (AList.update (appName options) (JStr (remote_url options)) manifest)"
  by (simp add: manifest_updater_def own_entries_def assign_entries_def)

lemma update_fresh_key: "k \<notin> fst ` set al \<Longrightarrow> AList.update k v al = al @ [(k, v)]"
  by (induction al) auto

lemma update_known_key: "k \<in> fst ` set al \<Longrightarrow> map fst (AList.update k v al) = map fst al"
  by (induction al) auto

lemma addRemoteToDynamicHost_object:
  assumes "tree_read tree pathToMfManifest = Some text"
    and "parseJson dk text = Inr (JObj manifest)"
  shows "addRemoteToDynamicHost dk tree options pathToMfManifest =
           (Inr (), tree_write tree pathToMfManifest
              (serializeJson dk
                 (JObj (AList.update (appName options) (JStr (remote_url options)) manifest))))"
  using assms by (simp add: addRemoteToDynamicHost_def updateJson_def manifest_updater_object)

text \<open>
  C8. \<open>addRemoteToHost\<close> does nothing unless the role is \<open>remote\<close> and a host is set:
  for every other input it returns, and the tree is the one it was given, whatever the
  collaborators and the files of the tree are.
\<close>

theorem addRemoteToHost_noop:
  "\<not> (mfType options = Remote \<and> truthy (host options))
   \<Longrightarrow> addRemoteToHost dk tree options = (Inr (), tree)"
  by (cases "mfType options = Remote") (simp_all add: addRemoteToHost_def)

theorem addRemoteToHost_noop_witness:
  "addRemoteToHost example_devkit example_dynamic_tree (example_options \<lparr> mfType := Host \<rparr>)
     = (Inr (), example_dynamic_tree)
   \<and> addRemoteToHost example_devkit example_dynamic_tree (example_options \<lparr> host := None \<rparr>)
     = (Inr (), example_dynamic_tree)"
  using
    addRemoteToHost_noop [of "example_options \<lparr> mfType := Host \<rparr>" example_devkit example_dynamic_tree]
    addRemoteToHost_noop [of "example_options \<lparr> host := None \<rparr>" example_devkit example_dynamic_tree]
  by (simp add: example_options_def truthy_def)

text \<open>
  C3. Registering a remote against a static host (its manifest file does not exist)
  whose root holds no \<open>module-federation.config.js\<close> throws an error that names the
  host and the missing set-up, and the tree is left as it was: nothing is written,
  \<open>remotes.d.ts\<close> included.
\<close>

theorem addRemoteToHost_static_without_config:
  assumes "mfType options = Remote"
    and "truthy (host options)"
    and "readProjectConfiguration dk tree (host options) = Inr hostProject"
    and "joinPathFragments dk (sourceRoot hostProject) ''assets/module-federation.manifest.json''
           = Inr pathToMFManifest"
    and "\<not> tree_exists tree pathToMFManifest"
    and "joinPathFragments dk (Some (root hostProject)) ''module-federation.config.js''
           = Inr hostMFConfigPath"
    and "\<not> tree_exists tree hostMFConfigPath"
  shows "addRemoteToHost dk tree options =
           (Inl (Error
              (''The selected host application, '' @ string_of_undefinable (host options)
               @ '', does not contain a module-federation.config.js or module-federation.manifest.json file. Are you sure it has been set up as a host application?'')),
            tree)"
  using assms
  by (simp add: addRemoteToHost_def determineHostFederationType_def addRemoteToStaticHost_def
      missing_host_config_message_def)

theorem addRemoteToHost_static_without_config_witness:
  "addRemoteToHost example_devkit example_static_tree example_options =
     (Inl (Error ''The selected host application, shell, does not contain a module-federation.config.js or module-federation.manifest.json file. Are you sure it has been set up as a host application?''),
      example_static_tree)"
proof -
  have cfg: "readProjectConfiguration example_devkit example_static_tree (host example_options)
               = Inr example_host_project"
    by (simp add: example_devkit_def example_options_def)
  have manifest: "joinPathFragments example_devkit (sourceRoot example_host_project)
                    ''assets/module-federation.manifest.json'' = Inr example_manifest_path"
    by (simp add: example_devkit_def example_join_def example_host_project_def
        example_manifest_path_def)
  have config: "joinPathFragments example_devkit (Some (root example_host_project))
                  ''module-federation.config.js'' = Inr ''apps/shell/module-federation.config.js''"
    by (simp add: example_devkit_def example_join_def example_host_project_def)
  have no_manifest: "\<not> tree_exists example_static_tree example_manifest_path"
    by (simp add: tree_exists_def example_static_tree_def example_manifest_path_def
        example_declaration_path_def)
  have no_config: "\<not> tree_exists example_static_tree ''apps/shell/module-federation.config.js''"
    by (simp add: tree_exists_def example_static_tree_def example_declaration_path_def)
  have role: "mfType example_options = Remote" and hosted: "truthy (host example_options)"
    by (simp_all add: example_options_def truthy_def)
  from addRemoteToHost_static_without_config [OF role hosted cfg manifest no_manifest config no_config]
  show ?thesis by (simp add: example_options_def string_of_undefinable_def)
qed

text \<open>
  C4, as the source has it. Registering a remote against a dynamic host whose manifest
  object does not yet have the application's name as a key adds exactly one entry, the
  application's name with the string \<open>http://localhost:<port>\<close>, and every key the
  manifest had keeps its value. When the name is already a key, no key is added and the
  value of that key is replaced, as the evaluation below on a manifest with the key
  \<open>shop\<close> shows.
\<close>

theorem addRemoteToDynamicHost_adds_entry:
  assumes "tree_read tree pathToMfManifest = Some text"
    and "parseJson dk text = Inr (JObj manifest)"
    and "appName options \<notin> fst ` set manifest"
  shows "addRemoteToDynamicHost dk tree options pathToMfManifest =
           (Inr (), tree_write tree pathToMfManifest
              (serializeJson dk
                 (JObj (manifest
                    @ [(appName options,
                        JStr (''http://localhost:'' @ string_of_nat (port options)))]))))
         \<and> (\<forall>k \<in> fst ` set manifest.
               map_of (manifest
                    @ [(appName options,
                        JStr (''http://localhost:'' @ string_of_nat (port options)))]) k
               = map_of manifest k)"
proof -
  have "AList.update (appName options) (JStr (remote_url options)) manifest
          = manifest @ [(appName options, JStr (remote_url options))]"
    using assms(3) by (rule update_fresh_key)
  with addRemoteToDynamicHost_object [OF assms(1) assms(2), of options]
  have run: "addRemoteToDynamicHost dk tree options pathToMfManifest =
           (Inr (), tree_write tree pathToMfManifest
              (serializeJson dk
                 (JObj (manifest
                    @ [(appName options,
                        JStr (''http://localhost:'' @ string_of_nat (port options)))]))))"
    by (simp add: remote_url_def)
  have kept: "\<forall>k \<in> fst ` set manifest.
               map_of (manifest
                    @ [(appName options,
                        JStr (''http://localhost:'' @ string_of_nat (port options)))]) k
               = map_of manifest k"
    by (auto simp: map_add_def map_of_eq_None_iff split: option.splits)
  from run kept show ?thesis by (rule conjI)
qed

theorem addRemoteToDynamicHost_adds_entry_witness:
  "addRemoteToDynamicHost example_devkit [example_manifest_path \<mapsto> ''{cart,blog}'']
     example_options example_manifest_path
   = (Inr (),
      [example_manifest_path
         \<mapsto> ''cart=http://localhost:4202;blog=http://localhost:4203;shop=http://localhost:4201;''])
   \<and> map_of [(''cart'', JStr ''http://localhost:4202''), (''blog'', JStr ''http://localhost:4203''),
              (''shop'', JStr ''http://localhost:4201'')] ''cart''
       = Some (JStr ''http://localhost:4202'')
   \<and> map_of [(''cart'', JStr ''http://localhost:4202''), (''blog'', JStr ''http://localhost:4203''),
              (''shop'', JStr ''http://localhost:4201'')] ''blog''
       = Some (JStr ''http://localhost:4203'')"
proof -
  let ?manifest = "[(''cart'', JStr ''http://localhost:4202''),
                    (''blog'', JStr ''http://localhost:4203'')]"
  have r: "tree_read [example_manifest_path \<mapsto> ''{cart,blog}''] example_manifest_path
             = Some ''{cart,blog}''"
    by (simp add: tree_read_def)
  have p: "parseJson example_devkit ''{cart,blog}'' = Inr (JObj ?manifest)"
    by (simp add: example_devkit_def example_parse_def)
  have fresh: "appName example_options \<notin> fst ` set ?manifest"
    by (simp add: example_options_def)
  have cart: "''cart'' \<in> fst ` set ?manifest" and blog: "''blog'' \<in> fst ` set ?manifest"
    by simp_all
  from addRemoteToDynamicHost_adds_entry [OF r p fresh] cart blog
  show ?thesis
    by (simp add: example_options_def example_devkit_def example_print_def tree_write_def)
qed

theorem addRemoteToDynamicHost_existing_key_counterexample:
  "addRemoteToDynamicHost example_devkit [example_manifest_path \<mapsto> ''{shop}''] example_options
     example_manifest_path
   = (Inr (), [example_manifest_path \<mapsto> ''shop=http://localhost:4201;''])
   \<and> parseJson example_devkit ''{shop}'' = Inr (JObj [(''shop'', JStr ''http://localhost:4200'')])
   \<and> manifest_updater example_options (JObj [(''shop'', JStr ''http://localhost:4200'')])
       = JObj [(''shop'', JStr ''http://localhost:4201'')]"
  by (simp add: addRemoteToDynamicHost_def updateJson_def manifest_updater_def own_entries_def
      assign_entries_def remote_url_def tree_read_def tree_write_def example_devkit_def
      example_parse_def example_print_def example_options_def)

text \<open>
  C10. When the manifest object of a dynamic host already has the application's name as
  a key, registering the remote returns without an error and the key takes the value
  \<open>http://localhost:<port>\<close>, whatever it held; the keys of the manifest and their
  order stay the same.
\<close>

theorem addRemoteToDynamicHost_overwrites_key:
  assumes "tree_read tree pathToMfManifest = Some text"
    and "parseJson dk text = Inr (JObj manifest)"
    and "appName options \<in> fst ` set manifest"
  shows "addRemoteToDynamicHost dk tree options pathToMfManifest =
           (Inr (), tree_write tree pathToMfManifest
              (serializeJson dk
                 (JObj (AList.update (appName options)
                          (JStr (''http://localhost:'' @ string_of_nat (port options)))
                          manifest))))
         \<and> map_of (AList.update (appName options)
                     (JStr (''http://localhost:'' @ string_of_nat (port options))) manifest)
               (appName options)
             = Some (JStr (''http://localhost:'' @ string_of_nat (port options)))
         \<and> map fst (AList.update (appName options)
                      (JStr (''http://localhost:'' @ string_of_nat (port options))) manifest)
             = map fst manifest"
proof -
  have run: "addRemoteToDynamicHost dk tree options pathToMfManifest =
           (Inr (), tree_write tree pathToMfManifest
              (serializeJson dk
                 (JObj (AList.update (appName options)
                          (JStr (''http://localhost:'' @ string_of_nat (port options)))
                          manifest))))"
    using addRemoteToDynamicHost_object [OF assms(1) assms(2), of options]
    by (simp add: remote_url_def)
  have val: "map_of (AList.update (appName options)
                     (JStr (''http://localhost:'' @ string_of_nat (port options))) manifest)
               (appName options)
             = Some (JStr (''http://localhost:'' @ string_of_nat (port options)))"
    by (simp add: update_conv')
  have keys: "map fst (AList.update (appName options)
                      (JStr (''http://localhost:'' @ string_of_nat (port options))) manifest)
             = map fst manifest"
    using assms(3) by (rule update_known_key)
  from run val keys show ?thesis by (intro conjI)
qed

theorem addRemoteToDynamicHost_overwrites_key_witness:
  "addRemoteToDynamicHost example_devkit [example_manifest_path \<mapsto> ''{shop}''] example_options
     example_manifest_path
   = (Inr (), [example_manifest_path \<mapsto> ''shop=http://localhost:4201;''])"
proof -
  have r: "tree_read [example_manifest_path \<mapsto> ''{shop}''] example_manifest_path = Some ''{shop}''"
    by (simp add: tree_read_def)
  have p: "parseJson example_devkit ''{shop}''
             = Inr (JObj [(''shop'', JStr ''http://localhost:4200'')])"
    by (simp add: example_devkit_def example_parse_def)
  have known: "appName example_options \<in> fst ` set [(''shop'', JStr ''http://localhost:4200'')]"
    by (simp add: example_options_def)
  from addRemoteToDynamicHost_overwrites_key [OF r p known]
  show ?thesis
    by (simp add: example_options_def example_devkit_def example_print_def tree_write_def)
qed

subsection \<open>The routing entry point and the menu\<close>

text \<open>Facts about \<open>indexOf\<close> and \<open>slice\<close>.\<close>

lemma js_indexOf_upper: "js_indexOf s t \<le> int (length s)"
  by (induction s) (auto simp: Let_def)

lemma js_indexOf_prefix:
  "0 \<le> js_indexOf s t \<Longrightarrow> prefix t (drop (nat (js_indexOf s t)) s)"
proof (induction s)
  case Nil
  then show ?case by (simp split: if_splits)
next
  case (Cons x xs)
  show ?case
  proof (cases "prefix t (x # xs)")
    case True
    then show ?thesis by simp
  next
    case False
    with Cons.prems have nonneg: "0 \<le> js_indexOf xs t"
      by (simp add: Let_def split: if_splits)
    with False have "js_indexOf (x # xs) t = js_indexOf xs t + 1"
      by (simp add: Let_def)
    moreover have "nat (js_indexOf xs t + 1) = Suc (nat (js_indexOf xs t))"
      using nonneg by simp
    ultimately show ?thesis
      using Cons.IH [OF nonneg] by simp
  qed
qed

lemma js_indexOf_first:
  "0 \<le> js_indexOf s t \<Longrightarrow> j < nat (js_indexOf s t) \<Longrightarrow> \<not> prefix t (drop j s)"
proof (induction s arbitrary: j)
  case Nil
  then show ?case by (simp split: if_splits)
next
  case (Cons x xs)
  show ?case
  proof (cases "prefix t (x # xs)")
    case True
    with Cons.prems show ?thesis by simp
  next
    case False
    with Cons.prems have nonneg: "0 \<le> js_indexOf xs t"
      by (simp add: Let_def split: if_splits)
    with False have eq: "js_indexOf (x # xs) t = js_indexOf xs t + 1"
      by (simp add: Let_def)
    show ?thesis
    proof (cases j)
      case 0
      with False show ?thesis by simp
    next
      case (Suc k)
      with Cons.prems eq nonneg have "k < nat (js_indexOf xs t)" by simp
      from Cons.IH [OF nonneg this] Suc show ?thesis by simp
    qed
  qed
qed

lemma js_slice_prefix:
  "0 \<le> i \<Longrightarrow> i \<le> int (length s) \<Longrightarrow> js_slice s 0 i = take (nat i) s"
  by (simp add: js_slice_def js_clamp_index_def Let_def min_def)

lemma js_slice_from_suffix:
  "0 \<le> i \<Longrightarrow> i \<le> int (length s) \<Longrightarrow> js_slice_from s i = drop (nat i) s"
  by (simp add: js_slice_from_def js_clamp_index_def Let_def min_def)

text \<open>What each part of the patch leaves alone, and what the menu patch writes.\<close>

lemma patch_routing_file_frame:
  "patch_routing_file dk tree options ft rp file = (r, tree1) \<Longrightarrow> p \<noteq> rp \<Longrightarrow> tree1 p = tree p"
  by (auto simp: patch_routing_file_def tree_write_def Let_def split: sum.splits if_splits)

lemma patch_template_frame:
  "patch_app_component_template dk tree1 options cfg = (r, tree2) \<Longrightarrow> tree1 p = Some s
   \<Longrightarrow> \<not> js_includes s remote_menu_open \<Longrightarrow> tree2 p = Some s"
  by (auto simp: patch_app_component_template_def tree_write_def tree_read_def Let_def
      split: sum.splits option.splits if_splits)

lemma patch_template_inserts:
  "joinPathFragments dk (sourceRoot cfg) ''app/app.component.html'' = Inr q \<Longrightarrow> tree_read tree1 q = Some s
   \<Longrightarrow> js_includes s remote_menu_open \<Longrightarrow> js_includes s ''</ul>''
   \<Longrightarrow> patch_app_component_template dk tree1 options cfg =
        (Inr (), tree1(q \<mapsto> js_slice s 0 (js_indexOf s ''</ul>'') @ menu_entry dk options
                                  @ js_slice_from s (js_indexOf s ''</ul>'')))"
  by (simp add: patch_app_component_template_def tree_write_def tree_read_def Let_def)

lemma addLazyLoadedRoute_frame:
  assumes run: "addLazyLoadedRouteToHostAppModule dk tree options ft = (r, tree')"
    and content: "tree p = Some s"
    and lacks: "\<not> js_includes s remote_menu_open"
    and distinct: "\<forall>cfg b. readProjectConfiguration dk tree (host options) = Inr cfg
                     \<longrightarrow> p \<noteq> host_root_routing_path cfg b"
  shows "tree' p = Some s"
proof (cases "readProjectConfiguration dk tree (host options)")
  case (Inl e)
  with run content show ?thesis by (simp add: addLazyLoadedRouteToHostAppModule_def)
next
  case (Inr cfg)
  note cfg = this
  show ?thesis
  proof (cases "joinPathFragments dk (sourceRoot cfg) ''bootstrap.ts''")
    case (Inl e)
    with run content cfg show ?thesis by (simp add: addLazyLoadedRouteToHostAppModule_def)
  next
    case (Inr pb)
    note pb = this
    show ?thesis
    proof (cases "tree pb")
      case None
      with run content cfg pb show ?thesis
        by (simp add: addLazyLoadedRouteToHostAppModule_def tree_read_def)
    next
      case (Some bs)
      define rp where "rp = host_root_routing_path cfg (\<not> js_includes bs ''bootstrapModule'')"
      have ne: "p \<noteq> rp" using distinct cfg by (simp add: rp_def)
      show ?thesis
      proof (cases "tree rp")
        case None
        with run content cfg pb Some show ?thesis
          by (simp add: addLazyLoadedRouteToHostAppModule_def tree_read_def tree_exists_def
              rp_def Let_def)
      next
        case (Some rf)
        note rf = this
        show ?thesis
        proof (cases "js_includes rf ''RouterModule.forRoot(''")
          case False
          with run content cfg pb \<open>tree pb = Some bs\<close> rf show ?thesis
            by (simp add: addLazyLoadedRouteToHostAppModule_def tree_read_def tree_exists_def
                rp_def Let_def)
        next
          case True
          obtain r1 tree1 where p1: "patch_routing_file dk tree options ft rp rf = (r1, tree1)"
            by (cases "patch_routing_file dk tree options ft rp rf")
          have t1: "tree1 p = Some s"
            using patch_routing_file_frame [OF p1 ne] content by simp
          show ?thesis
          proof (cases r1)
            case (Inl e)
            with run cfg pb \<open>tree pb = Some bs\<close> rf True p1 t1 show ?thesis
              by (simp add: addLazyLoadedRouteToHostAppModule_def tree_read_def tree_exists_def
                  rp_def Let_def)
          next
            case (Inr u)
            with run cfg pb \<open>tree pb = Some bs\<close> rf True p1
            have "patch_app_component_template dk tree1 options cfg = (r, tree')"
              by (simp add: addLazyLoadedRouteToHostAppModule_def tree_read_def tree_exists_def
                  rp_def Let_def)
            from patch_template_frame [OF this t1 lacks] show ?thesis .
          qed
        qed
      qed
    qed
  qed
qed


lemma addLazyLoadedRoute_inserts:
  assumes run: "addLazyLoadedRouteToHostAppModule dk tree options ft = (Inr (), tree')"
    and cfg: "readProjectConfiguration dk tree (host options) = Inr hostAppConfig"
    and pb: "joinPathFragments dk (sourceRoot hostAppConfig) ''bootstrap.ts'' = Inr pathToBootstrap"
    and bs: "tree pathToBootstrap = Some bootstrap"
    and rf: "tree (host_root_routing_path hostAppConfig (\<not> js_includes bootstrap ''bootstrapModule''))
               = Some hostRootRoutingFile"
    and forRoot: "js_includes hostRootRoutingFile ''RouterModule.forRoot(''"
    and q: "joinPathFragments dk (sourceRoot hostAppConfig) ''app/app.component.html'' = Inr q"
    and ne: "q \<noteq> host_root_routing_path hostAppConfig (\<not> js_includes bootstrap ''bootstrapModule'')"
    and content: "tree q = Some s"
    and menu: "js_includes s remote_menu_open"
    and closing: "js_includes s ''</ul>''"
  shows "tree' q = Some (js_slice s 0 (js_indexOf s ''</ul>'') @ menu_entry dk options
                         @ js_slice_from s (js_indexOf s ''</ul>''))"
proof -
  define rp where "rp = host_root_routing_path hostAppConfig (\<not> js_includes bootstrap ''bootstrapModule'')"
  obtain r1 tree1 where p1: "patch_routing_file dk tree options ft rp hostRootRoutingFile = (r1, tree1)"
    by (cases "patch_routing_file dk tree options ft rp hostRootRoutingFile")
  have unfolded: "addLazyLoadedRouteToHostAppModule dk tree options ft =
          (case r1 of Inl e \<Rightarrow> (Inl e, tree1)
           | Inr u \<Rightarrow> patch_app_component_template dk tree1 options hostAppConfig)"
    using cfg pb bs rf forRoot p1
    by (simp add: addLazyLoadedRouteToHostAppModule_def tree_read_def tree_exists_def rp_def Let_def
        split: sum.splits)
  have t1: "tree_read tree1 q = Some s"
    using patch_routing_file_frame [OF p1] ne content by (simp add: rp_def tree_read_def)
  from unfolded run have "patch_app_component_template dk tree1 options hostAppConfig = (Inr (), tree')"
    by (cases r1) simp_all
  with patch_template_inserts [OF q t1 menu closing, of options] show ?thesis
    by auto
qed

lemma addLazyLoadedRoute_skips_silently:
  assumes cfg: "readProjectConfiguration dk tree (host options) = Inr hostAppConfig"
    and pb: "joinPathFragments dk (sourceRoot hostAppConfig) ''bootstrap.ts'' = Inr pathToBootstrap"
    and bs: "tree_read tree pathToBootstrap = Some bootstrap"
    and target: "case tree_read tree (host_root_routing_path hostAppConfig (\<not> js_includes bootstrap ''bootstrapModule'')) of
                  None \<Rightarrow> True | Some text \<Rightarrow> \<not> js_includes text ''RouterModule.forRoot(''"
  shows "addLazyLoadedRouteToHostAppModule dk tree options ft = (Inr (), tree)"
  using assms
  by (simp add: addLazyLoadedRouteToHostAppModule_def tree_read_def tree_exists_def Let_def
        split: option.splits)

lemmas example_defs =
  example_devkit_def example_options_def example_join_def example_host_project_def
  example_parse_def example_print_def example_dynamic_tree_def example_routed_tree_def
  example_static_tree_def example_bootstrap_path_def example_manifest_path_def
  example_template_path_def example_module_path_def example_declaration_path_def
  example_template_def

lemmas registrar_defs =
  addRemoteToHost_def addLazyLoadedRouteToHostAppModule_def addRemoteToDynamicHost_def
  updateJson_def manifest_updater_def own_entries_def assign_entries_def remote_url_def
  determineHostFederationType_def declaration_line_def host_root_routing_path_def
  patch_routing_file_def patch_app_component_template_def menu_entry_def
  tree_read_def tree_write_def tree_exists_def truthy_def string_of_undefinable_def
  string_of_nullable_def js_includes_def


text \<open>
  C6. The claim is that the routing patch is a silent no-op whenever the routing file
  (\<open>bootstrap.ts\<close> of a standalone host, \<open>app/app.module.ts\<close> otherwise) does not
  exist or has no \<open>RouterModule.forRoot(\<close> call. The source decides which of the two
  files it is by reading \<open>bootstrap.ts\<close> first, without testing that it exists: on a
  host that has neither file, the read answers \<open>null\<close> and the call of \<open>includes\<close> on
  it throws a \<open>TypeError\<close>, from the patch step and so from \<open>addRemoteToHost\<close>.
  \<open>addLazyLoadedRoute_skips_silently\<close> above is the part of the claim that holds: when
  \<open>bootstrap.ts\<close> can be read, the step returns with the tree unchanged.
\<close>

theorem addLazyLoadedRoute_missing_bootstrap_throws:
  "addLazyLoadedRouteToHostAppModule example_devkit
       (example_dynamic_tree(example_bootstrap_path := None)) example_options Dynamic
     = (Inl (TypeError ''Cannot read properties of null (reading includes)''),
        example_dynamic_tree(example_bootstrap_path := None))
   \<and> fst (addRemoteToHost example_devkit (example_dynamic_tree(example_bootstrap_path := None))
            example_options)
     = Inl (TypeError ''Cannot read properties of null (reading includes)'')"
  by (simp add: registrar_defs example_defs)


text \<open>
  C7, as the source has it. The menu entry is written by the same function as the
  route, after its early returns: when the routing file is missing or has no
  \<open>RouterModule.forRoot(\<close> call, the template is not patched although it has the
  \<open>remote-menu\<close> list (the counterexample below, on a host without
  \<open>app/app.module.ts\<close>).

  What holds, for a template that is not itself the routing file:
  \<^item> a template without the \<open>remote-menu\<close> opening tag is left as it was, whatever
    the function does and whether it returns or throws;
  \<^item> when the function returns after patching a routing file that exists and calls
    \<open>RouterModule.forRoot(\<close>, and the template has the opening tag before its first
    \<open></ul>\<close>, the new template is the old one with the entry
    \<open><li><a routerLink='appName'>ClassName</a></li>\<close> and a line feed inserted at the
    position of that first \<open></ul>\<close>, and nothing else changed.
\<close>

theorem addLazyLoadedRoute_menu_entry:
  assumes run: "addLazyLoadedRouteToHostAppModule dk tree options ft = (r, tree')"
    and template: "tree_read tree pathToTemplate = Some appComponent"
    and distinct: "\<forall>cfg b. readProjectConfiguration dk tree (host options) = Inr cfg
                     \<longrightarrow> pathToTemplate \<noteq> host_root_routing_path cfg b"
  shows "(\<not> js_includes appComponent remote_menu_open
            \<longrightarrow> tree_read tree' pathToTemplate = Some appComponent)
       \<and> (r = Inr ()
          \<and> readProjectConfiguration dk tree (host options) = Inr hostAppConfig
          \<and> joinPathFragments dk (sourceRoot hostAppConfig) ''bootstrap.ts'' = Inr pathToBootstrap
          \<and> tree_read tree pathToBootstrap = Some bootstrap
          \<and> tree_read tree (host_root_routing_path hostAppConfig
                               (\<not> js_includes bootstrap ''bootstrapModule''))
              = Some hostRootRoutingFile
          \<and> js_includes hostRootRoutingFile ''RouterModule.forRoot(''
          \<and> joinPathFragments dk (sourceRoot hostAppConfig) ''app/app.component.html''
              = Inr pathToTemplate
          \<and> js_includes appComponent remote_menu_open
          \<and> js_indexOf appComponent remote_menu_open < js_indexOf appComponent ''</ul>''
          \<longrightarrow> tree_read tree' pathToTemplate
                = Some (take (nat (js_indexOf appComponent ''</ul>'')) appComponent
                        @ menu_entry dk options
                        @ drop (nat (js_indexOf appComponent ''</ul>'')) appComponent)
              \<and> prefix ''</ul>'' (drop (nat (js_indexOf appComponent ''</ul>'')) appComponent)
              \<and> (\<forall>j < nat (js_indexOf appComponent ''</ul>'').
                    \<not> prefix ''</ul>'' (drop j appComponent)))"
proof (intro conjI impI)
  assume "\<not> js_includes appComponent remote_menu_open"
  with addLazyLoadedRoute_frame [OF run _ _ distinct, of appComponent] template
  show "tree_read tree' pathToTemplate = Some appComponent"
    by (simp add: tree_read_def)
next
  assume a: "r = Inr ()
          \<and> readProjectConfiguration dk tree (host options) = Inr hostAppConfig
          \<and> joinPathFragments dk (sourceRoot hostAppConfig) ''bootstrap.ts'' = Inr pathToBootstrap
          \<and> tree_read tree pathToBootstrap = Some bootstrap
          \<and> tree_read tree (host_root_routing_path hostAppConfig
                               (\<not> js_includes bootstrap ''bootstrapModule''))
              = Some hostRootRoutingFile
          \<and> js_includes hostRootRoutingFile ''RouterModule.forRoot(''
          \<and> joinPathFragments dk (sourceRoot hostAppConfig) ''app/app.component.html''
              = Inr pathToTemplate
          \<and> js_includes appComponent remote_menu_open
          \<and> js_indexOf appComponent remote_menu_open < js_indexOf appComponent ''</ul>''"
  define i where "i = js_indexOf appComponent ''</ul>''"
  have nonneg: "0 \<le> i"
    using a by (simp add: js_includes_def i_def)
  have le: "i \<le> int (length appComponent)"
    unfolding i_def by (rule js_indexOf_upper)
  have closing: "js_includes appComponent ''</ul>''"
    using nonneg by (simp add: js_includes_def i_def)
  have ne: "pathToTemplate \<noteq> host_root_routing_path hostAppConfig
                               (\<not> js_includes bootstrap ''bootstrapModule'')"
    using distinct a by blast
  have run': "addLazyLoadedRouteToHostAppModule dk tree options ft = (Inr (), tree')"
    using run a by simp
  have cfg: "readProjectConfiguration dk tree (host options) = Inr hostAppConfig"
    and pb: "joinPathFragments dk (sourceRoot hostAppConfig) ''bootstrap.ts'' = Inr pathToBootstrap"
    and bs: "tree pathToBootstrap = Some bootstrap"
    and rf: "tree (host_root_routing_path hostAppConfig
                     (\<not> js_includes bootstrap ''bootstrapModule'')) = Some hostRootRoutingFile"
    and forRoot: "js_includes hostRootRoutingFile ''RouterModule.forRoot(''"
    and q: "joinPathFragments dk (sourceRoot hostAppConfig) ''app/app.component.html''
              = Inr pathToTemplate"
    and menu: "js_includes appComponent remote_menu_open"
    using a by (simp_all add: tree_read_def)
  have content: "tree pathToTemplate = Some appComponent"
    using template by (simp add: tree_read_def)
  have "tree' pathToTemplate = Some (js_slice appComponent 0 i @ menu_entry dk options
                                     @ js_slice_from appComponent i)"
    unfolding i_def
    by (rule addLazyLoadedRoute_inserts [OF run' cfg pb bs rf forRoot q ne content menu closing])
  then show "tree_read tree' pathToTemplate
                = Some (take (nat (js_indexOf appComponent ''</ul>'')) appComponent
                        @ menu_entry dk options
                        @ drop (nat (js_indexOf appComponent ''</ul>'')) appComponent)"
    using js_slice_prefix [OF nonneg le] js_slice_from_suffix [OF nonneg le]
    by (simp add: tree_read_def i_def)
  show "prefix ''</ul>'' (drop (nat (js_indexOf appComponent ''</ul>'')) appComponent)"
    using js_indexOf_prefix nonneg unfolding i_def by blast
  show "\<forall>j < nat (js_indexOf appComponent ''</ul>''). \<not> prefix ''</ul>'' (drop j appComponent)"
    using js_indexOf_first nonneg unfolding i_def by blast
qed


theorem addLazyLoadedRoute_menu_entry_witness:
  "tree_read (snd (addLazyLoadedRouteToHostAppModule example_devkit example_routed_tree
                     example_options Static)) example_template_path
   = Some (remote_menu_open @ ''<li><a routerLink='' @ sq @ ''shop'' @ sq @ ''>shop</a></li>''
           @ nl @ ''</ul>'')
   \<and> tree_read (snd (addLazyLoadedRouteToHostAppModule example_devkit
                        (example_routed_tree(example_template_path \<mapsto> ''<ul></ul>''))
                        example_options Static)) example_template_path
   = Some ''<ul></ul>''"
proof -
  let ?run = "addLazyLoadedRouteToHostAppModule example_devkit example_routed_tree
                example_options Static"
  have run: "?run = (fst ?run, snd ?run)" by simp
  have template: "tree_read example_routed_tree example_template_path = Some example_template"
    by (simp add: tree_read_def example_defs)
  have distinct: "\<forall>cfg b. readProjectConfiguration example_devkit example_routed_tree
                             (host example_options) = Inr cfg
                     \<longrightarrow> example_template_path \<noteq> host_root_routing_path cfg b"
    by (simp add: example_defs host_root_routing_path_def string_of_undefinable_def)
  have ok: "fst ?run = Inr ()"
    by (simp add: registrar_defs example_defs remote_menu_open_def)
  have cfg: "readProjectConfiguration example_devkit example_routed_tree (host example_options)
               = Inr example_host_project"
    by (simp add: example_defs)
  have pb: "joinPathFragments example_devkit (sourceRoot example_host_project) ''bootstrap.ts''
              = Inr example_bootstrap_path"
    by (simp add: example_defs)
  have bs: "tree_read example_routed_tree example_bootstrap_path = Some ''bootstrapModule(AppModule)''"
    by (simp add: tree_read_def example_defs)
  have rf: "tree_read example_routed_tree
              (host_root_routing_path example_host_project
                 (\<not> js_includes ''bootstrapModule(AppModule)'' ''bootstrapModule''))
            = Some ''@NgModule RouterModule.forRoot(''"
    by (simp add: registrar_defs example_defs)
  have forRoot: "js_includes ''@NgModule RouterModule.forRoot('' ''RouterModule.forRoot(''"
    by (simp add: js_includes_def)
  have q: "joinPathFragments example_devkit (sourceRoot example_host_project)
             ''app/app.component.html'' = Inr example_template_path"
    by (simp add: example_defs)
  have menu: "js_includes example_template remote_menu_open"
    by (simp add: js_includes_def example_template_def remote_menu_open_def)
  have idx: "js_indexOf example_template ''</ul>'' = 24"
    by (simp add: example_template_def remote_menu_open_def)
  have ordered: "js_indexOf example_template remote_menu_open < js_indexOf example_template ''</ul>''"
    by (simp add: example_template_def remote_menu_open_def)
  have first: "tree_read (snd ?run) example_template_path
   = Some (remote_menu_open @ ''<li><a routerLink='' @ sq @ ''shop'' @ sq @ ''>shop</a></li>''
           @ nl @ ''</ul>'')"
    using addLazyLoadedRoute_menu_entry [OF run template distinct, of example_host_project example_bootstrap_path
                "''bootstrapModule(AppModule)''" "''@NgModule RouterModule.forRoot(''"]
      ok cfg pb bs rf forRoot q menu ordered
    by (simp add: idx) (simp add: example_defs menu_entry_def remote_menu_open_def)
  let ?tree2 = "example_routed_tree(example_template_path \<mapsto> ''<ul></ul>'')"
  let ?run2 = "addLazyLoadedRouteToHostAppModule example_devkit ?tree2 example_options Static"
  have run2: "?run2 = (fst ?run2, snd ?run2)" by simp
  have template2: "tree_read ?tree2 example_template_path = Some ''<ul></ul>''"
    by (simp add: tree_read_def)
  have distinct2: "\<forall>cfg b. readProjectConfiguration example_devkit ?tree2
                             (host example_options) = Inr cfg
                     \<longrightarrow> example_template_path \<noteq> host_root_routing_path cfg b"
    by (simp add: example_defs host_root_routing_path_def string_of_undefinable_def)
  have lacks: "\<not> js_includes ''<ul></ul>'' remote_menu_open"
    by (simp add: js_includes_def remote_menu_open_def)
  have second: "tree_read (snd ?run2) example_template_path = Some ''<ul></ul>''"
    using addLazyLoadedRoute_menu_entry [OF run2 template2 distinct2] lacks by blast
  from first second show ?thesis by (rule conjI)
qed

theorem addRemoteToHost_menu_not_patched_counterexample:
  "addRemoteToHost example_devkit example_dynamic_tree example_options
     = (Inr (),
        example_dynamic_tree
          (example_manifest_path \<mapsto> ''shop=http://localhost:4201;'',
           example_declaration_path \<mapsto> nl @ ''declare module '' @ sq @ ''shop/Module'' @ sq @ '';''))
   \<and> example_dynamic_tree example_template_path = Some (remote_menu_open @ ''</ul>'')"
  by (simp add: registrar_defs example_defs remote_menu_open_def)

subsection \<open>The preset resolver\<close>

text \<open>
  \<open>getConfigByPath\<close> answers a configuration whose name is set, so the project name
  that the resolver reads from it is a string.
\<close>

lemma getConfigByPath_name:
  "getConfigByPath dk graph0 configPath = Inr (graph, cfg) \<Longrightarrow> name cfg \<noteq> None"
  by (auto simp: getConfigByPath_def Let_def or_default_def split: sum.splits option.splits if_splits)


text \<open>A graph without the data of the build project or of the component-test project.\<close>

lemma buildTargetWebpack_missing_project_config:
  assumes "parseTargetString dk buildTarget = Inr parsed"
    and "node_data graph (project parsed) = None \<or> node_data graph ctName = None"
  shows "buildTargetWebpack dk graph buildTarget ctName =
           Inl (Error (missing_project_configs_message dk buildTarget
                  (node_data graph (project parsed) \<noteq> None) (node_data graph ctName \<noteq> None)))"
  using assms by (auto simp: buildTargetWebpack_def split: option.splits)

lemmas resolver_defs =
  webpack_config_from_graph_def getConfigByPath_def createExecutorContext_def
  buildTargetWebpack_def withSchemaDefaults_def node_data_def or_default_def
  component_test_target_name_def js_replace_def truthy_def string_of_undefinable_def
  own_entries_def assign_entries_def isScriptOptimizeOn_def

lemmas resolver_example_defs =
  example_cypress_devkit_def example_graph_def example_graph_without_build_def
  example_project_def example_config_path_def example_web_options_def


text \<open>
  What the resolver does once the body of the \<open>try\<close> block has thrown: the two
  warnings are logged; the preset with the fallback configuration is returned when the
  fallback builder and the base preset return; an error that reaches the caller is an
  error of one of those two calls.
\<close>

lemma fallback_logged:
  "webpack_config_from_graph dk pathToConfig options = Inl e
   \<Longrightarrow> snd (nxComponentTestingPreset dk pathToConfig options)
         = [WarnText (fallback_warning dk), WarnError e]"
  by (simp add: nxComponentTestingPreset_def return_preset_def Let_def split: sum.splits)

lemma fallback_returned:
  "webpack_config_from_graph dk pathToConfig options = Inl e
   \<Longrightarrow> buildBaseWebpackConfig dk ''tsconfig.cy.json'' ''babel'' = Inr fallback
   \<Longrightarrow> nxBaseCypressPreset dk pathToConfig = Inr basePreset
   \<Longrightarrow> fst (nxComponentTestingPreset dk pathToConfig options)
         = Inr \<lparr> base = basePreset,
                 devServer = \<lparr> framework = ''react'', bundler = ''webpack'',
                               webpackConfig = fallback \<rparr> \<rparr>"
  by (simp add: nxComponentTestingPreset_def return_preset_def Let_def)

lemma fallback_thrown:
  "webpack_config_from_graph dk pathToConfig options = Inl e
   \<Longrightarrow> fst (nxComponentTestingPreset dk pathToConfig options) = Inl thrown
   \<Longrightarrow> buildBaseWebpackConfig dk ''tsconfig.cy.json'' ''babel'' = Inl thrown
       \<or> ((\<exists>fallback. buildBaseWebpackConfig dk ''tsconfig.cy.json'' ''babel'' = Inr fallback)
           \<and> nxBaseCypressPreset dk pathToConfig = Inl thrown)"
  by (auto simp: nxComponentTestingPreset_def return_preset_def Let_def split: sum.splits)

lemma missing_devServerTarget_fails:
  assumes "readCachedProjectGraph dk = Inr graph0"
    and "getConfigByPath dk graph0 pathToConfig = Inr (graph, ctConfig)"
    and "createExecutorContext dk graph (targets ctConfig) (string_of_undefinable (name ctConfig))
           (component_test_target_name options) (NX_CYPRESS_TARGET_CONFIGURATION dk) = Inr ectx"
    and "readCypressTargetOptions dk
           \<lparr> project = string_of_undefinable (name ctConfig),
             target = component_test_target_name options,
             configuration = NX_CYPRESS_TARGET_CONFIGURATION dk \<rparr> ectx = Inr ctExecutorOptions"
    and "\<not> truthy (devServerTarget ctExecutorOptions)"
  shows "webpack_config_from_graph dk pathToConfig options =
          Inl (Error (''Unable to find the '' @ sq @ ''devServerTarget'' @ sq
                 @ '' executor option in the '' @ sq @ component_test_target_name options @ sq
                 @ '' target of the '' @ sq @ string_of_undefinable (name ctConfig) @ sq
                 @ '' project''))"
  using assms
  by (simp add: webpack_config_from_graph_def Let_def truthy_def
      missing_dev_server_target_message_def split: option.splits)




text \<open>
  C2, as the source has it. The error for a missing \<open>devServerTarget\<close> is thrown
  inside the \<open>try\<close> block and caught there, so it is not what the caller sees. When
  the option of the component-test target is undefined or empty:
  \<^item> the resolver logs the fallback warning and then the diagnostic that names the
    target and the project;
  \<^item> when \<open>buildBaseWebpackConfig\<close> and \<open>nxBaseCypressPreset\<close> return, it returns the
    preset with the fallback configuration;
  \<^item> an error that it throws is the error of one of those two calls, not the
    diagnostic raised for the missing option.
\<close>

theorem nxComponentTestingPreset_missing_devServerTarget:
  assumes "readCachedProjectGraph dk = Inr graph0"
    and "getConfigByPath dk graph0 pathToConfig = Inr (graph, ctConfig)"
    and "createExecutorContext dk graph (targets ctConfig) (string_of_undefinable (name ctConfig))
           (component_test_target_name options) (NX_CYPRESS_TARGET_CONFIGURATION dk) = Inr ectx"
    and "readCypressTargetOptions dk
           \<lparr> project = string_of_undefinable (name ctConfig),
             target = component_test_target_name options,
             configuration = NX_CYPRESS_TARGET_CONFIGURATION dk \<rparr> ectx = Inr ctExecutorOptions"
    and "\<not> truthy (devServerTarget ctExecutorOptions)"
  shows "snd (nxComponentTestingPreset dk pathToConfig options)
           = [WarnText (fallback_warning dk),
              WarnError (Error (''Unable to find the '' @ sq @ ''devServerTarget'' @ sq
                 @ '' executor option in the '' @ sq @ component_test_target_name options @ sq
                 @ '' target of the '' @ sq @ string_of_undefinable (name ctConfig) @ sq
                 @ '' project''))]
       \<and> (buildBaseWebpackConfig dk ''tsconfig.cy.json'' ''babel'' = Inr fallback
          \<and> nxBaseCypressPreset dk pathToConfig = Inr basePreset
          \<longrightarrow> fst (nxComponentTestingPreset dk pathToConfig options)
                = Inr \<lparr> base = basePreset,
                        devServer = \<lparr> framework = ''react'', bundler = ''webpack'',
                                      webpackConfig = fallback \<rparr> \<rparr>)
       \<and> (fst (nxComponentTestingPreset dk pathToConfig options) = Inl thrown
          \<longrightarrow> buildBaseWebpackConfig dk ''tsconfig.cy.json'' ''babel'' = Inl thrown
              \<or> ((\<exists>fallback. buildBaseWebpackConfig dk ''tsconfig.cy.json'' ''babel''
                                = Inr fallback)
                  \<and> nxBaseCypressPreset dk pathToConfig = Inl thrown))"
proof -
  note failed = missing_devServerTarget_fails [OF assms]
  from fallback_logged [OF failed] fallback_returned [OF failed] fallback_thrown [OF failed]
  show ?thesis by blast
qed

theorem nxComponentTestingPreset_missing_devServerTarget_witness:
  "nxComponentTestingPreset
     (example_cypress_devkit
        \<lparr> readCypressTargetOptions := (\<lambda>t context. Inr \<lparr> devServerTarget = Some [] \<rparr>) \<rparr>)
     example_config_path (Some \<lparr> ctTargetName = ''ct'' \<rparr>)
   = (Inr \<lparr> base = ''base preset of /ws/apps/shop/cypress.config.ts'',
             devServer = \<lparr> framework = ''react'', bundler = ''webpack'',
                           webpackConfig = ''base config tsconfig.cy.json babel'' \<rparr> \<rparr>,
      [WarnText (fallback_warning example_cypress_devkit),
       WarnError (Error (''Unable to find the '' @ sq @ ''devServerTarget'' @ sq
           @ '' executor option in the '' @ sq @ ''ct'' @ sq
           @ '' target of the '' @ sq @ ''shop'' @ sq @ '' project''))])"
proof -
  let ?dk = "example_cypress_devkit
        \<lparr> readCypressTargetOptions := (\<lambda>t context. Inr \<lparr> devServerTarget = Some [] \<rparr>) \<rparr>"
  let ?options = "Some \<lparr> ctTargetName = ''ct'' \<rparr>"
  let ?run = "nxComponentTestingPreset ?dk example_config_path ?options"
  have graph0: "readCachedProjectGraph ?dk = Inr example_graph"
    by (simp add: example_cypress_devkit_def)
  obtain graph ctConfig where
    located: "getConfigByPath ?dk example_graph example_config_path = Inr (graph, ctConfig)"
    and named: "name ctConfig = Some ''shop''"
    and tgts: "targets ctConfig \<noteq> None"
    by (simp add: resolver_defs resolver_example_defs Let_def)
  obtain ectx where
    ctx: "createExecutorContext ?dk graph (targets ctConfig) (string_of_undefinable (name ctConfig))
            (component_test_target_name ?options) (NX_CYPRESS_TARGET_CONFIGURATION ?dk) = Inr ectx"
    using tgts by (auto simp: createExecutorContext_def example_cypress_devkit_def)
  have opts: "readCypressTargetOptions ?dk
           \<lparr> project = string_of_undefinable (name ctConfig),
             target = component_test_target_name ?options,
             configuration = NX_CYPRESS_TARGET_CONFIGURATION ?dk \<rparr> ectx
           = Inr \<lparr> devServerTarget = Some [] \<rparr>"
    by (simp add: example_cypress_devkit_def)
  have falsy: "\<not> truthy (devServerTarget \<lparr> devServerTarget = Some [] \<rparr>)"
    by (simp add: truthy_def)
  have built: "buildBaseWebpackConfig ?dk ''tsconfig.cy.json'' ''babel''
                 = Inr ''base config tsconfig.cy.json babel''"
    by (simp add: example_cypress_devkit_def)
  have preset: "nxBaseCypressPreset ?dk example_config_path
                  = Inr ''base preset of /ws/apps/shop/cypress.config.ts''"
    by (simp add: example_cypress_devkit_def example_config_path_def)
  from nxComponentTestingPreset_missing_devServerTarget [OF graph0 located ctx opts falsy,
      of "''base config tsconfig.cy.json babel''"
         "''base preset of /ws/apps/shop/cypress.config.ts''"] built preset
  have logged: "snd ?run
           = [WarnText (fallback_warning ?dk),
              WarnError (Error (''Unable to find the '' @ sq @ ''devServerTarget'' @ sq
                 @ '' executor option in the '' @ sq @ component_test_target_name ?options @ sq
                 @ '' target of the '' @ sq @ string_of_undefinable (name ctConfig) @ sq
                 @ '' project''))]"
    and returned: "fst ?run
          = Inr \<lparr> base = ''base preset of /ws/apps/shop/cypress.config.ts'',
                  devServer = \<lparr> framework = ''react'', bundler = ''webpack'',
                                webpackConfig = ''base config tsconfig.cy.json babel'' \<rparr> \<rparr>"
    by blast+
  have "?run = (fst ?run, snd ?run)" by simp
  with logged returned named show ?thesis
    by (simp add: fallback_warning_def component_test_target_name_def
        string_of_undefinable_def)
qed

theorem nxComponentTestingPreset_missing_devServerTarget_counterexample:
  "nxComponentTestingPreset
     (example_cypress_devkit
        \<lparr> readCypressTargetOptions := (\<lambda>t context. Inr \<lparr> devServerTarget = None \<rparr>) \<rparr>)
     example_config_path None
   = (Inr \<lparr> base = ''base preset of /ws/apps/shop/cypress.config.ts'',
             devServer = \<lparr> framework = ''react'', bundler = ''webpack'',
                           webpackConfig = ''base config tsconfig.cy.json babel'' \<rparr> \<rparr>,
      [WarnText (fallback_warning example_cypress_devkit),
       WarnError (Error (''Unable to find the '' @ sq @ ''devServerTarget'' @ sq
           @ '' executor option in the '' @ sq @ ''component-test'' @ sq
           @ '' target of the '' @ sq @ ''shop'' @ sq @ '' project''))])"
  by (simp add: nxComponentTestingPreset_def return_preset_def resolver_defs
      resolver_example_defs Let_def fallback_warning_def missing_dev_server_target_message_def)

text \<open>
  C9. In every preset that \<open>nxComponentTestingPreset\<close> returns, from the graph or from
  the fallback, \<open>devServer.framework\<close> is \<open>react\<close> and \<open>devServer.bundler\<close> is
  \<open>webpack\<close>; and it does return one when the base preset and, on the fallback path,
  the fallback builder return.
\<close>

theorem nxComponentTestingPreset_framework_bundler:
  "((\<exists>basePreset. nxBaseCypressPreset dk pathToConfig = Inr basePreset)
     \<and> (\<exists>fallback. buildBaseWebpackConfig dk ''tsconfig.cy.json'' ''babel'' = Inr fallback)
     \<longrightarrow> (\<exists>p logged. nxComponentTestingPreset dk pathToConfig options = (Inr p, logged)))
   \<and> (\<forall>p logged. nxComponentTestingPreset dk pathToConfig options = (Inr p, logged)
         \<longrightarrow> framework (devServer p) = ''react'' \<and> bundler (devServer p) = ''webpack'')"
  by (auto simp: nxComponentTestingPreset_def return_preset_def Let_def split: sum.splits)

theorem nxComponentTestingPreset_framework_bundler_witness:
  "framework (devServer
     (projr (fst (nxComponentTestingPreset example_cypress_devkit example_config_path None))))
     = ''react''
   \<and> bundler (devServer
     (projr (fst (nxComponentTestingPreset example_cypress_devkit example_config_path None))))
     = ''webpack''
   \<and> nxComponentTestingPreset example_cypress_devkit example_config_path None
     = (Inr \<lparr> base = ''base preset of /ws/apps/shop/cypress.config.ts'',
               devServer = \<lparr> framework = ''react'', bundler = ''webpack'',
                             webpackConfig = ''webpack config of apps/shop'' \<rparr> \<rparr>, [])"
proof -
  have run: "nxComponentTestingPreset example_cypress_devkit example_config_path None
     = (Inr \<lparr> base = ''base preset of /ws/apps/shop/cypress.config.ts'',
               devServer = \<lparr> framework = ''react'', bundler = ''webpack'',
                             webpackConfig = ''webpack config of apps/shop'' \<rparr> \<rparr>, [])"
    by (simp add: nxComponentTestingPreset_def return_preset_def resolver_defs
        resolver_example_defs Let_def)
  from nxComponentTestingPreset_framework_bundler [of example_cypress_devkit example_config_path None] run
  show ?thesis by simp
qed

end
